theory Spec2Isabelle
  imports Main
begin

section \<open>Session state of the authentication context\<close>

text \<open>
  The authentication context (\<^verbatim>\<open>AuthProvider\<close>) owns three React state cells
  (\<^verbatim>\<open>gitHubTokenState\<close>, \<^verbatim>\<open>bitbucketTokenState\<close>, \<^verbatim>\<open>userIdState\<close>), writes
  the browser's \<^verbatim>\<open>localStorage\<close>, and calls the header functions of three axios
  clients. All of that is one record; every operation takes the record and returns the
  updated one.

  A React state setter is modelled as the assignment of its cell: the value the component
  holds once the update has been applied. The functions of the context are created anew
  at each render; one that reads a cell reads the value its own render had, which is a
  parameter of its model. A token is \<^verbatim>\<open>string | null\<close>, here \<open>string option\<close> with
  \<open>None\<close> for \<^verbatim>\<open>null\<close>.
\<close>

datatype api_call = GetConfig | RefreshToken string string

record app_state =
  gitHubTokenState :: "string option"
  bitbucketTokenState :: "string option"
  userIdState :: string
  localStorage :: "string \<rightharpoonup> string"
  openHandsGitHubToken :: "string option"
  githubAuthorization :: "string option"
  bitbucketAuthorization :: "string option"
  posthogIdentity :: "string option"
  apiLog :: "api_call list"
  dispatched :: nat

text \<open>
  \<open>openHandsGitHubToken\<close>, \<open>githubAuthorization\<close> and \<open>bitbucketAuthorization\<close> are
  the token headers among the default headers of the OpenHands, GitHub and Bitbucket
  clients (\<open>None\<close>: the header is not there). \<open>posthogIdentity\<close> is the identity the
  analytics library holds. \<open>apiLog\<close> records the calls made to the OpenHands backend
  (\<open>RefreshToken\<close> with the application mode and user id it was given) and
  \<open>dispatched\<close> counts the requests the Bitbucket client has handed to the network; both exist to observe the code, which never reads them.
\<close>

text \<open>JavaScript truthiness of a \<^verbatim>\<open>string | null\<close>: \<^verbatim>\<open>null\<close> and \<^verbatim>\<open>""\<close> are falsy.\<close>

definition truthy :: "string option \<Rightarrow> bool" where
  "truthy v = (case v of None \<Rightarrow> False | Some t \<Rightarrow> t \<noteq> [])"

subsection \<open>Header functions of the Bitbucket client\<close>

text \<open>\<^verbatim>\<open>bitbucket.defaults.headers.common.Authorization = `Bearer ${token}`\<close>\<close>

definition setAuthTokenHeader :: "string \<Rightarrow> app_state \<Rightarrow> app_state" where
  "setAuthTokenHeader token s = s\<lparr>bitbucketAuthorization := Some (''Bearer '' @ token)\<rparr>"

text \<open>The header is deleted only when its current value is truthy.\<close>

definition removeAuthTokenHeader :: "app_state \<Rightarrow> app_state" where
  "removeAuthTokenHeader s =
     (if truthy (bitbucketAuthorization s) then s\<lparr>bitbucketAuthorization := None\<rparr> else s)"

subsection \<open>Header functions of the GitHub and OpenHands clients\<close>

text \<open>
  Modelled from the spec: the modules \<^verbatim>\<open>github-axios-instance\<close> and
  \<^verbatim>\<open>open-hands-axios\<close> are imported by the authentication context and are not among
  the sources. The specification's header manager "installs a bearer-scheme Authorization
  header as a default header" and "deletes the header if present (no-op otherwise)"; the
  OpenHands client's header carries the GitHub token as it is.
\<close>

definition setGitHubAuthTokenHeader :: "string \<Rightarrow> app_state \<Rightarrow> app_state" where
  "setGitHubAuthTokenHeader token s = s\<lparr>githubAuthorization := Some (''Bearer '' @ token)\<rparr>"

definition removeGitHubAuthTokenHeader :: "app_state \<Rightarrow> app_state" where
  "removeGitHubAuthTokenHeader s = s\<lparr>githubAuthorization := None\<rparr>"

definition setOpenHandsGitHubTokenHeader :: "string \<Rightarrow> app_state \<Rightarrow> app_state" where
  "setOpenHandsGitHubTokenHeader token s = s\<lparr>openHandsGitHubToken := Some token\<rparr>"

definition removeOpenHandsGitHubTokenHeader :: "app_state \<Rightarrow> app_state" where
  "removeOpenHandsGitHubTokenHeader s = s\<lparr>openHandsGitHubToken := None\<rparr>"

subsection \<open>localStorage\<close>

definition setItem :: "string \<Rightarrow> string \<Rightarrow> app_state \<Rightarrow> app_state" where
  "setItem k v s = s\<lparr>localStorage := (localStorage s)(k \<mapsto> v)\<rparr>"

definition removeItem :: "string \<Rightarrow> app_state \<Rightarrow> app_state" where
  "removeItem k s = s\<lparr>localStorage := (localStorage s)(k := None)\<rparr>"

subsection \<open>Operations of the authentication context\<close>

definition clearGitHubToken :: "app_state \<Rightarrow> app_state" where
  "clearGitHubToken s =
     removeGitHubAuthTokenHeader
       (removeOpenHandsGitHubTokenHeader
         (removeItem ''ghToken'' (s\<lparr>gitHubTokenState := None\<rparr>)))"

definition clearBitbucketToken :: "app_state \<Rightarrow> app_state" where
  "clearBitbucketToken s =
     removeAuthTokenHeader (removeItem ''bitbucketToken'' (s\<lparr>bitbucketTokenState := None\<rparr>))"

text \<open>
  \<^verbatim>\<open>if (token)\<close> tests truthiness, so \<^verbatim>\<open>null\<close> and the empty string both take the
  \<^verbatim>\<open>else\<close> branch.
\<close>

definition setGitHubToken :: "string option \<Rightarrow> app_state \<Rightarrow> app_state" where
  "setGitHubToken token s =
     (let s1 = s\<lparr>gitHubTokenState := token\<rparr> in
      case token of
        Some t \<Rightarrow>
          (if t \<noteq> [] then
             setGitHubAuthTokenHeader t (setOpenHandsGitHubTokenHeader t (setItem ''ghToken'' t s1))
           else clearGitHubToken s1)
      | None \<Rightarrow> clearGitHubToken s1)"

definition setBitbucketToken :: "string option \<Rightarrow> app_state \<Rightarrow> app_state" where
  "setBitbucketToken token s =
     (let s1 = s\<lparr>bitbucketTokenState := token\<rparr> in
      case token of
        Some t \<Rightarrow>
          (if t \<noteq> [] then setAuthTokenHeader t (setItem ''bitbucketToken'' t s1)
           else clearBitbucketToken s1)
      | None \<Rightarrow> clearBitbucketToken s1)"

text \<open>
  \<^verbatim>\<open>setUserId\<close> passes the current \<^verbatim>\<open>userIdState\<close> to the state setter, not its
  argument: only \<^verbatim>\<open>localStorage\<close> receives the new id.
\<close>

definition setUserId :: "string \<Rightarrow> app_state \<Rightarrow> app_state" where
  "setUserId userId s = setItem ''userId'' userId (s\<lparr>userIdState := userIdState s\<rparr>)"

text \<open>
  Modelled from the spec: \<^verbatim>\<open>posthog.reset()\<close> belongs to the analytics library,
  which is not among the sources; the specification has \<^verbatim>\<open>logout\<close> reset "any
  process-wide analytics identity", here the identity the library holds.
\<close>

definition posthog_reset :: "app_state \<Rightarrow> app_state" where
  "posthog_reset s = s\<lparr>posthogIdentity := None\<rparr>"

definition logout :: "app_state \<Rightarrow> app_state" where
  "logout s =
     posthog_reset
       (removeItem ''userId''
         ((clearBitbucketToken (clearGitHubToken s))\<lparr>userIdState := []\<rparr>))"

section \<open>The Bitbucket client and its response interceptors\<close>

subsection \<open>Values\<close>

text \<open>A parsed response body is any JavaScript value that JSON parsing can produce.\<close>

datatype jsval =
    JUndefined
  | JNull
  | JBool bool
  | JNum int
  | JStr string
  | JArr "jsval list"
  | JObj "(string \<times> jsval) list"

fun js_truthy :: "jsval \<Rightarrow> bool" where
  "js_truthy JUndefined = False"
| "js_truthy JNull = False"
| "js_truthy (JBool b) = b"
| "js_truthy (JNum n) = (n \<noteq> 0)"
| "js_truthy (JStr t) = (t \<noteq> [])"
| "js_truthy (JArr xs) = True"
| "js_truthy (JObj ps) = True"

text \<open>
  A request configuration: the URL, the request's own \<^verbatim>\<open>Authorization\<close> header if it
  has one, and the retry marker \<^verbatim>\<open>_retry\<close> (not set reads as falsy).
\<close>

record request =
  url :: string
  authorization :: "string option"
  retry :: bool

text \<open>What the server sent: the status and the parsed body.\<close>

record reply =
  status :: "nat option"
  data :: jsval

record response =
  config :: request
  reply :: reply

text \<open>
  \<^verbatim>\<open>AxiosError\<close> carries its message, the request configuration and the server's
  reply, each of the last two possibly missing. axios stores one configuration object
  both as \<^verbatim>\<open>error.config\<close> and as \<^verbatim>\<open>error.response.config\<close>; the model keeps it
  once. \<open>Error\<close> is a plain \<^verbatim>\<open>Error\<close>, \<open>TypeError\<close> the engine's own.
\<close>

datatype js_error =
    AxiosError string "request option" "reply option"
  | Error string
  | TypeError string

datatype event = Dispatched request | RefreshCalled | LogoutCalled

type_synonym outcome = "(js_error + response) \<times> event list \<times> app_state"

subsection \<open>canRefresh and isBitbucketErrorResponse\<close>

fun canRefresh :: "js_error \<Rightarrow> bool" where
  "canRefresh (AxiosError msg cfg rep) =
     (cfg \<noteq> None \<and>
      (case rep of
         None \<Rightarrow> False
       | Some a \<Rightarrow> (case status a of None \<Rightarrow> False | Some n \<Rightarrow> n \<noteq> 0)))"
| "canRefresh (Error msg) = False"
| "canRefresh (TypeError msg) = False"

text \<open>
  \<^verbatim>\<open>!!data && "message" in data && data.message !== undefined\<close>. The \<^verbatim>\<open>in\<close>
  operator raises a \<^verbatim>\<open>TypeError\<close> when its right operand is not an object; a falsy
  operand never reaches it. A parsed array has no property \<^verbatim>\<open>message\<close>.
\<close>

definition isBitbucketErrorResponse :: "jsval \<Rightarrow> js_error + bool" where
  "isBitbucketErrorResponse d =
     (if \<not> js_truthy d then Inr False
      else case d of
        JObj ps \<Rightarrow>
          Inr (case map_of ps ''message'' of None \<Rightarrow> False | Some v \<Rightarrow> v \<noteq> JUndefined)
      | JArr xs \<Rightarrow> Inr False
      | _ \<Rightarrow> Inl (TypeError ''right operand of in is not an object''))"

subsection \<open>The two interceptor stages\<close>

definition success_stage :: "response \<Rightarrow> js_error + response" where
  "success_stage resp =
     (case isBitbucketErrorResponse (data (reply resp)) of
        Inl e \<Rightarrow> Inl e
      | Inr isError \<Rightarrow>
          if isError then Inl (AxiosError ''Failed'' (Some (config resp)) (Some (reply resp)))
          else Inr resp)"

text \<open>
  The failure stage takes the application mode and the two callbacks that
  \<^verbatim>\<open>setupAxiosInterceptors\<close> receives (\<open>refreshFn\<close> for \<^verbatim>\<open>refreshToken\<close>,
  \<open>logoutFn\<close> for \<^verbatim>\<open>logout\<close>), and \<open>resubmit\<close>, the client itself.
  \<^verbatim>\<open>originalRequest._retry = true\<close> writes the object that the error holds, so the
  error rejected afterwards carries the marked configuration. Inside \<^verbatim>\<open>try\<close> every
  \<^verbatim>\<open>await\<close> that rejects lands in \<^verbatim>\<open>catch\<close>: a rejected resubmission and the
  awaited \<^verbatim>\<open>Promise.reject\<close> after the first \<^verbatim>\<open>logout()\<close> both do. The event list
  records, in order, each request handed to the network and each call of a callback.
\<close>

definition failure_stage ::
  "string \<Rightarrow> (app_state \<Rightarrow> (js_error + bool) \<times> app_state) \<Rightarrow> (app_state \<Rightarrow> app_state) \<Rightarrow>
   (request \<Rightarrow> app_state \<Rightarrow> outcome) \<Rightarrow> js_error \<Rightarrow> app_state \<Rightarrow> outcome" where
  "failure_stage appMode refreshFn logoutFn resubmit error s =
     (if \<not> canRefresh error then (Inl (Error ''Failed to refresh token''), [], s)
      else case error of
        AxiosError msg (Some originalRequest) (Some rep) \<Rightarrow>
          if status rep = Some 401 \<and> \<not> retry originalRequest then
            (let marked = originalRequest\<lparr>retry := True\<rparr> in
             if appMode = ''saas'' then
               (case refreshFn s of
                  (Inr refreshed, s1) \<Rightarrow>
                    if refreshed then
                      (case resubmit marked s1 of
                         (Inr r, evs, s2) \<Rightarrow> (Inr r, RefreshCalled # evs, s2)
                       | (Inl refreshError, evs, s2) \<Rightarrow>
                           (Inl refreshError, RefreshCalled # evs @ [LogoutCalled], logoutFn s2))
                    else
                      (Inl (Error ''Failed to refresh token''),
                       [RefreshCalled, LogoutCalled, LogoutCalled], logoutFn (logoutFn s1))
                | (Inl refreshError, s1) \<Rightarrow>
                    (Inl refreshError, [RefreshCalled, LogoutCalled], logoutFn s1))
             else (Inl (AxiosError msg (Some marked) (Some rep)), [], s))
          else (Inl error, [], s)
      | _ \<Rightarrow> (Inl error, [], s))"

subsection \<open>The client\<close>

text \<open>
  Calling \<^verbatim>\<open>bitbucket(config)\<close> is axios's own code. What the model keeps of it:
  the client's default \<^verbatim>\<open>Authorization\<close> header is merged into a configuration that
  has none of its own, and the merged configuration is the one a response or an error
  refers to; a reply settles as a response when its status is falsy or in the 2xx range
  and as an \<^verbatim>\<open>AxiosError\<close> otherwise; the interceptor pair is attached as
  \<^verbatim>\<open>promise.then(success, failure)\<close>, so the failure stage sees what the transport
  rejected, not what the success stage threw. The network is a parameter: what it does
  with the \<open>n\<close>-th request the client hands over.
\<close>

datatype transport = Answered reply | NoResponse string | Threw string

definition mergeConfig :: "app_state \<Rightarrow> request \<Rightarrow> request" where
  "mergeConfig s req =
     (case authorization req of
        Some a \<Rightarrow> req
      | None \<Rightarrow> req\<lparr>authorization := bitbucketAuthorization s\<rparr>)"

definition settles :: "reply \<Rightarrow> bool" where
  "settles a = (case status a of None \<Rightarrow> True | Some n \<Rightarrow> n = 0 \<or> (200 \<le> n \<and> n < 300))"

fun decimal :: "nat \<Rightarrow> string" where
  "decimal n =
     (if n < 10 then [''0123456789'' ! n]
      else decimal (n div 10) @ [''0123456789'' ! (n mod 10)])"

definition status_text :: "nat option \<Rightarrow> string" where
  "status_text st = (case st of None \<Rightarrow> ''undefined'' | Some n \<Rightarrow> decimal n)"

text \<open>
  The failure stage calls \<open>resubmit\<close> on nothing but the marked copy of the
  configuration of an error whose marker was not set.
\<close>

lemma failure_stage_cong [fundef_cong]:
  assumes "appMode = appMode'" "refreshFn = refreshFn'" "logoutFn = logoutFn'"
    and "error = error'" "s = s'"
    and "\<And>msg q a s1. error' = AxiosError msg (Some q) (Some a) \<Longrightarrow> \<not> retry q \<Longrightarrow>
           resubmit (q\<lparr>retry := True\<rparr>) s1 = resubmit' (q\<lparr>retry := True\<rparr>) s1"
  shows "failure_stage appMode refreshFn logoutFn resubmit error s =
         failure_stage appMode' refreshFn' logoutFn' resubmit' error' s'"
  using assms
  by (auto simp: failure_stage_def Let_def
      split: js_error.splits option.splits prod.splits sum.splits)

function bitbucket ::
  "(nat \<Rightarrow> request \<Rightarrow> transport) \<Rightarrow> string \<Rightarrow> (app_state \<Rightarrow> (js_error + bool) \<times> app_state) \<Rightarrow>
   (app_state \<Rightarrow> app_state) \<Rightarrow> request \<Rightarrow> app_state \<Rightarrow> outcome" where
  "bitbucket net appMode refreshFn logoutFn req s =
     (let cfg = mergeConfig s req;
          s1 = s\<lparr>dispatched := Suc (dispatched s)\<rparr>
      in case
           (case net (dispatched s) cfg of
              Answered a \<Rightarrow>
                if settles a then (success_stage \<lparr>config = cfg, reply = a\<rparr>, [], s1)
                else failure_stage appMode refreshFn logoutFn
                       (bitbucket net appMode refreshFn logoutFn)
                       (AxiosError (''Request failed with status code '' @ status_text (status a))
                          (Some cfg) (Some a)) s1
            | NoResponse msg \<Rightarrow>
                failure_stage appMode refreshFn logoutFn
                  (bitbucket net appMode refreshFn logoutFn)
                  (AxiosError msg (Some cfg) None) s1
            | Threw msg \<Rightarrow>
                failure_stage appMode refreshFn logoutFn
                  (bitbucket net appMode refreshFn logoutFn)
                  (Error msg) s1)
         of (result, evs, s2) \<Rightarrow> (result, Dispatched cfg # evs, s2))"
  by pat_completeness auto

termination
proof (relation "measure (\<lambda>(net, appMode, refreshFn, logoutFn, req, s). if retry req then 0 else 1)")
  show "wf (measure (\<lambda>(net :: nat \<Rightarrow> request \<Rightarrow> transport, appMode :: string,
              refreshFn :: app_state \<Rightarrow> (js_error + bool) \<times> app_state,
              logoutFn :: app_state \<Rightarrow> app_state, req, s :: app_state).
            if retry req then 0 else (1::nat)))"
    by simp
qed (auto simp: mergeConfig_def split: option.splits)

text \<open>What a run's event list says: the requests handed to the network, in order.\<close>

fun dispatches :: "event list \<Rightarrow> request list" where
  "dispatches [] = []"
| "dispatches (Dispatched r # evs) = r # dispatches evs"
| "dispatches (RefreshCalled # evs) = dispatches evs"
| "dispatches (LogoutCalled # evs) = dispatches evs"

section \<open>The refresh coordinator\<close>

text \<open>
  Modelled from the spec: the module \<^verbatim>\<open>open-hands\<close> (\<^verbatim>\<open>OpenHands.getConfig\<close>,
  \<^verbatim>\<open>OpenHands.refreshToken\<close>) is not among the sources. The specification names a
  config endpoint that returns the deployment mode and a refresh exchange that returns a
  new token; each is a parameter here, giving what the awaited call resolves to
  (\<open>Inr\<close>) or rejects with (\<open>Inl\<close>) in the state it is made in. A resolved token is
  \<open>None\<close> when the call yields no string.
\<close>

record backend =
  getConfig :: "app_state \<Rightarrow> js_error + string"
  refreshTokenCall :: "app_state \<Rightarrow> string \<Rightarrow> string \<Rightarrow> js_error + string option"

text \<open>
  \<^verbatim>\<open>refreshToken\<close> of the authentication context. The \<^verbatim>\<open>gitHubTokenState\<close> and
  \<^verbatim>\<open>userIdState\<close> it reads are constants of the render that created the function,
  not the cells: they are the parameters \<open>gitHubToken\<close> and \<open>userId\<close>. A rejected
  \<^verbatim>\<open>await\<close> leaves the function at once: it has no \<^verbatim>\<open>try\<close>.
\<close>

definition refreshToken ::
  "backend \<Rightarrow> string option \<Rightarrow> string \<Rightarrow> app_state \<Rightarrow> (js_error + bool) \<times> app_state" where
  "refreshToken api gitHubToken userId s =
     (let s1 = s\<lparr>apiLog := apiLog s @ [GetConfig]\<rparr> in
      case getConfig api s of
        Inl e \<Rightarrow> (Inl e, s1)
      | Inr APP_MODE \<Rightarrow>
          if APP_MODE \<noteq> ''saas'' \<or> \<not> truthy gitHubToken then (Inr False, s1)
          else
            (let s2 = s1\<lparr>apiLog := apiLog s1 @ [RefreshToken APP_MODE userId]\<rparr> in
             case refreshTokenCall api s1 APP_MODE userId of
               Inl e \<Rightarrow> (Inl e, s2)
             | Inr newToken \<Rightarrow>
                 if truthy newToken then (Inr True, setGitHubToken newToken s2)
                 else (Inr False, clearGitHubToken s2)))"

text \<open>
  The interceptors are installed once, by the effect that runs after the first render
  (its dependency list is empty), and are given that render's \<^verbatim>\<open>refreshToken\<close>. The
  cells of the first render hold what their initialisers read from \<^verbatim>\<open>localStorage\<close>:
  the item \<^verbatim>\<open>ghToken\<close>, and the item \<^verbatim>\<open>userId\<close> or else the empty string.
\<close>

definition refreshToken_at_mount ::
  "backend \<Rightarrow> (string \<rightharpoonup> string) \<Rightarrow> app_state \<Rightarrow> (js_error + bool) \<times> app_state" where
  "refreshToken_at_mount api storage =
     refreshToken api (storage ''ghToken'') (case storage ''userId'' of None \<Rightarrow> [] | Some u \<Rightarrow> u)"

text \<open>The calls of the refresh exchange that a log holds.\<close>

fun exchanges :: "api_call list \<Rightarrow> nat" where
  "exchanges [] = 0"
| "exchanges (GetConfig # cs) = exchanges cs"
| "exchanges (RefreshToken m u # cs) = Suc (exchanges cs)"

subsection \<open>One invocation as the event loop runs it\<close>

text \<open>
  An \<^verbatim>\<open>async\<close> function runs without interruption from one \<^verbatim>\<open>await\<close> to the next;
  between two of them other tasks may run. \<open>refresh_step\<close> is \<^verbatim>\<open>refreshToken\<close> cut
  at its two \<^verbatim>\<open>await\<close>s: the call runs up to the request for the configuration, the
  configuration's arrival runs the guard and issues the exchange, the exchange's arrival
  writes the credential. The guard and the exchange read the closure's constants, as
  \<^verbatim>\<open>refreshToken\<close> does. A task ignores an input it is not waiting for.
\<close>

datatype refresh_task =
    NotCalled
  | AwaitingConfig
  | AwaitingExchange
  | Settled "js_error + bool"

datatype input =
    Call
  | Config "js_error + string"
  | Token "js_error + string option"

fun refresh_step ::
  "string option \<Rightarrow> string \<Rightarrow> refresh_task \<Rightarrow> input \<Rightarrow> app_state \<Rightarrow> refresh_task \<times> app_state" where
  "refresh_step gitHubToken userId NotCalled Call s =
     (AwaitingConfig, s\<lparr>apiLog := apiLog s @ [GetConfig]\<rparr>)"
| "refresh_step gitHubToken userId AwaitingConfig (Config (Inl e)) s = (Settled (Inl e), s)"
| "refresh_step gitHubToken userId AwaitingConfig (Config (Inr APP_MODE)) s =
     (if APP_MODE \<noteq> ''saas'' \<or> \<not> truthy gitHubToken then (Settled (Inr False), s)
      else (AwaitingExchange, s\<lparr>apiLog := apiLog s @ [RefreshToken APP_MODE userId]\<rparr>))"
| "refresh_step gitHubToken userId AwaitingExchange (Token (Inl e)) s = (Settled (Inl e), s)"
| "refresh_step gitHubToken userId AwaitingExchange (Token (Inr newToken)) s =
     (if truthy newToken then (Settled (Inr True), setGitHubToken newToken s)
      else (Settled (Inr False), clearGitHubToken s))"
| "refresh_step gitHubToken userId task i s = (task, s)"

text \<open>
  Two invocations in flight, both of the closure the interceptors hold. A schedule
  says, step by step, which of the two runs (\<open>False\<close> the first, \<open>True\<close> the second)
  and on what input.
\<close>

fun interleave ::
  "string option \<Rightarrow> string \<Rightarrow> (bool \<times> input) list \<Rightarrow> refresh_task \<times> refresh_task \<times> app_state \<Rightarrow>
   refresh_task \<times> refresh_task \<times> app_state" where
  "interleave gitHubToken userId [] p = p"
| "interleave gitHubToken userId ((second, i) # rest) (a, b, s) =
     (if second then
        (case refresh_step gitHubToken userId b i s of
           (b', s') \<Rightarrow> interleave gitHubToken userId rest (a, b', s'))
      else
        (case refresh_step gitHubToken userId a i s of
           (a', s') \<Rightarrow> interleave gitHubToken userId rest (a', b, s')))"

section \<open>Observations and sample inputs\<close>

definition result_of :: "outcome \<Rightarrow> js_error + response" where
  "result_of r = fst r"

definition events_of :: "outcome \<Rightarrow> event list" where
  "events_of r = fst (snd r)"

definition state_of :: "outcome \<Rightarrow> app_state" where
  "state_of r = snd (snd r)"

text \<open>A page with nothing stored and no header installed, and one with both tokens set.\<close>

definition signed_out :: app_state where
  "signed_out =
     \<lparr>gitHubTokenState = None, bitbucketTokenState = None, userIdState = [],
      localStorage = Map.empty, openHandsGitHubToken = None, githubAuthorization = None,
      bitbucketAuthorization = None, posthogIdentity = None, apiLog = [], dispatched = 0\<rparr>"

definition signed_in :: app_state where
  "signed_in = setBitbucketToken (Some ''bb-token'') (setGitHubToken (Some ''gh-token'') signed_out)"

definition list_repositories :: request where
  "list_repositories = \<lparr>url = ''/repositories'', authorization = None, retry = False\<rparr>"

definition unauthorized :: reply where
  "unauthorized = \<lparr>status = Some 401, data = JNull\<rparr>"

text \<open>A network that answers 401 to everything, and one that has no connection.\<close>

definition always_401 :: "nat \<Rightarrow> request \<Rightarrow> transport" where
  "always_401 n r = Answered unauthorized"

definition offline :: "nat \<Rightarrow> request \<Rightarrow> transport" where
  "offline n r = NoResponse ''Network Error''"

text \<open>Refresh callbacks that report success, report failure, and reject.\<close>

definition refresh_succeeds :: "app_state \<Rightarrow> (js_error + bool) \<times> app_state" where
  "refresh_succeeds s = (Inr True, s)"

definition refresh_fails :: "app_state \<Rightarrow> (js_error + bool) \<times> app_state" where
  "refresh_fails s = (Inr False, s)"

definition refresh_throws :: "app_state \<Rightarrow> (js_error + bool) \<times> app_state" where
  "refresh_throws s = (Inl (Error ''refresh endpoint unreachable''), s)"

text \<open>
  A backend in the multi-tenant mode whose exchange issues a token, one whose exchange
  rejects, a self-hosted one, and one that cannot be reached.
\<close>

definition saas_backend :: backend where
  "saas_backend =
     \<lparr>getConfig = (\<lambda>s. Inr ''saas''),
      refreshTokenCall = (\<lambda>s m u. Inr (Some ''gh-fresh''))\<rparr>"

definition failing_backend :: backend where
  "failing_backend =
     \<lparr>getConfig = (\<lambda>s. Inr ''saas''),
      refreshTokenCall = (\<lambda>s m u. Inl (Error ''Network Error''))\<rparr>"

definition oss_backend :: backend where
  "oss_backend =
     \<lparr>getConfig = (\<lambda>s. Inr ''oss''),
      refreshTokenCall = (\<lambda>s m u. Inr None)\<rparr>"

definition unreachable_backend :: backend where
  "unreachable_backend =
     \<lparr>getConfig = (\<lambda>s. Inl (Error ''Network Error'')),
      refreshTokenCall = (\<lambda>s m u. Inl (Error ''Network Error''))\<rparr>"

section \<open>Properties\<close>

declare bitbucket.simps [simp del]

declare decimal.simps [simp del]

lemmas session_defs =
  truthy_def setAuthTokenHeader_def removeAuthTokenHeader_def setGitHubAuthTokenHeader_def
  removeGitHubAuthTokenHeader_def setOpenHandsGitHubTokenHeader_def
  removeOpenHandsGitHubTokenHeader_def setItem_def removeItem_def clearGitHubToken_def
  clearBitbucketToken_def setGitHubToken_def setBitbucketToken_def setUserId_def
  posthog_reset_def logout_def

lemmas outcome_defs = result_of_def events_of_def state_of_def

subsection \<open>The credential store and the headers\<close>

text \<open>
  No operation of the context writes the empty string as the Bitbucket client's
  \<^verbatim>\<open>Authorization\<close> default: it is absent on a fresh page and every writer keeps it
  absent or a bearer value.
\<close>

lemma header_never_empty:
  "bitbucketAuthorization signed_out \<noteq> Some []"
  "bitbucketAuthorization s \<noteq> Some [] \<Longrightarrow> bitbucketAuthorization (setBitbucketToken tok s) \<noteq> Some []"
  "bitbucketAuthorization s \<noteq> Some [] \<Longrightarrow> bitbucketAuthorization (clearBitbucketToken s) \<noteq> Some []"
  "bitbucketAuthorization s \<noteq> Some [] \<Longrightarrow> bitbucketAuthorization (setGitHubToken tok s) \<noteq> Some []"
  "bitbucketAuthorization s \<noteq> Some [] \<Longrightarrow> bitbucketAuthorization (clearGitHubToken s) \<noteq> Some []"
  "bitbucketAuthorization s \<noteq> Some [] \<Longrightarrow> bitbucketAuthorization (setUserId u s) \<noteq> Some []"
  "bitbucketAuthorization s \<noteq> Some [] \<Longrightarrow> bitbucketAuthorization (logout s) \<noteq> Some []"
  by (auto simp add: session_defs signed_out_def Let_def split: option.splits)

lemma logout_logout: "logout (logout s) = logout s"
  by (simp add: session_defs fun_upd_twist)

text \<open>
  C1. For a token \<open>t\<close> (a non-empty string: the setters take the empty string for no
  token), setting it for either provider stores it, in memory and in localStorage, and
  leaves that provider's client with the default header \<open>Bearer t\<close>. Clearing a
  provider's token and setting it to \<open>null\<close> are one operation: the stored credential
  is gone and the header is absent, deleted where it was there (the Bitbucket client's
  is deleted unless it was the empty string, which nothing writes).
\<close>

theorem setToken_clearToken_mirror:
  assumes "t \<noteq> []"
  shows "bitbucketTokenState (setBitbucketToken (Some t) s) = Some t
       \<and> localStorage (setBitbucketToken (Some t) s) ''bitbucketToken'' = Some t
       \<and> bitbucketAuthorization (setBitbucketToken (Some t) s) = Some (''Bearer '' @ t)
       \<and> gitHubTokenState (setGitHubToken (Some t) s) = Some t
       \<and> localStorage (setGitHubToken (Some t) s) ''ghToken'' = Some t
       \<and> githubAuthorization (setGitHubToken (Some t) s) = Some (''Bearer '' @ t)
       \<and> bitbucketTokenState (clearBitbucketToken s) = None
       \<and> localStorage (clearBitbucketToken s) ''bitbucketToken'' = None
       \<and> (bitbucketAuthorization s \<noteq> Some [] \<longrightarrow> bitbucketAuthorization (clearBitbucketToken s) = None)
       \<and> gitHubTokenState (clearGitHubToken s) = None
       \<and> localStorage (clearGitHubToken s) ''ghToken'' = None
       \<and> githubAuthorization (clearGitHubToken s) = None
       \<and> setBitbucketToken None s = clearBitbucketToken s
       \<and> setBitbucketToken (Some []) s = clearBitbucketToken s
       \<and> setGitHubToken None s = clearGitHubToken s
       \<and> setGitHubToken (Some []) s = clearGitHubToken s"
  using assms by (auto simp add: session_defs Let_def split: option.splits)

theorem setToken_clearToken_mirror_witness:
  "bitbucketAuthorization (setBitbucketToken (Some ''abc123'') signed_out) = Some ''Bearer abc123''
   \<and> bitbucketTokenState (setBitbucketToken (Some ''abc123'') signed_out) = Some ''abc123''
   \<and> bitbucketAuthorization signed_in = Some ''Bearer bb-token''
   \<and> bitbucketAuthorization (clearBitbucketToken signed_in) = None
   \<and> bitbucketTokenState (clearBitbucketToken signed_in) = None
   \<and> bitbucketAuthorization (setBitbucketToken None signed_in) = None"
proof -
  have t: "''abc123'' \<noteq> []" by simp
  have h1: "bitbucketAuthorization signed_in = Some ''Bearer bb-token''"
    by (simp add: signed_in_def session_defs signed_out_def Let_def)
  from setToken_clearToken_mirror [OF t, of signed_out] setToken_clearToken_mirror [OF t, of signed_in] h1
  show ?thesis by simp
qed

text \<open>
  C8. \<^verbatim>\<open>logout\<close> leaves no token of either provider in memory or in localStorage, no
  token header on the GitHub and OpenHands clients and, unless it was the empty string,
  none on the Bitbucket client; the user id is cleared in memory and in localStorage and
  the analytics identity is reset. A second \<^verbatim>\<open>logout\<close> changes nothing.
\<close>

theorem logout_clears_everything_idempotent:
  "gitHubTokenState (logout s) = None
   \<and> bitbucketTokenState (logout s) = None
   \<and> localStorage (logout s) ''ghToken'' = None
   \<and> localStorage (logout s) ''bitbucketToken'' = None
   \<and> githubAuthorization (logout s) = None
   \<and> openHandsGitHubToken (logout s) = None
   \<and> (bitbucketAuthorization s \<noteq> Some [] \<longrightarrow> bitbucketAuthorization (logout s) = None)
   \<and> userIdState (logout s) = []
   \<and> localStorage (logout s) ''userId'' = None
   \<and> posthogIdentity (logout s) = None
   \<and> logout (logout s) = logout s"
  by (auto simp add: logout_logout) (auto simp add: session_defs split: option.splits)

theorem logout_clears_everything_idempotent_witness:
  "bitbucketAuthorization signed_in = Some ''Bearer bb-token''
   \<and> gitHubTokenState signed_in = Some ''gh-token''
   \<and> bitbucketAuthorization (logout signed_in) = None
   \<and> gitHubTokenState (logout signed_in) = None
   \<and> bitbucketTokenState (logout signed_in) = None
   \<and> logout (logout signed_in) = logout signed_in"
proof -
  have h: "bitbucketAuthorization signed_in = Some ''Bearer bb-token''"
    and g: "gitHubTokenState signed_in = Some ''gh-token''"
    by (simp_all add: signed_in_def session_defs signed_out_def Let_def)
  from logout_clears_everything_idempotent [of signed_in] h g show ?thesis by simp
qed

subsection \<open>The success stage\<close>

text \<open>
  C5. A 2xx response whose parsed body is the string \<^verbatim>\<open>OK\<close> is neither passed through
  nor turned into the synthesized failure: the body is truthy, so the \<^verbatim>\<open>in\<close> operator
  is reached and raises, and what the stage hands on is a \<^verbatim>\<open>TypeError\<close>.
\<close>

theorem success_stage_string_body_raises:
  "isBitbucketErrorResponse (JStr ''OK'') = Inl (TypeError ''right operand of in is not an object'')
   \<and> success_stage \<lparr>config = list_repositories, reply = \<lparr>status = Some 200, data = JStr ''OK''\<rparr>\<rparr> =
       Inl (TypeError ''right operand of in is not an object'')"
  by (simp add: success_stage_def isBitbucketErrorResponse_def)

text \<open>
  On every body that is falsy, an object or an array the stage does what is asked of it:
  the response becomes the synthesized failure exactly when the body is an object with a
  property \<^verbatim>\<open>message\<close> whose value is not \<^verbatim>\<open>undefined\<close>, and is returned unchanged
  otherwise.
\<close>

lemma success_stage_error_shape:
  assumes "\<not> js_truthy d \<or> (\<exists>ps. d = JObj ps) \<or> (\<exists>xs. d = JArr xs)"
  shows "success_stage \<lparr>config = cfg, reply = \<lparr>status = st, data = d\<rparr>\<rparr> =
           (if \<exists>ps v. d = JObj ps \<and> map_of ps ''message'' = Some v \<and> v \<noteq> JUndefined
            then Inl (AxiosError ''Failed'' (Some cfg) (Some \<lparr>status = st, data = d\<rparr>))
            else Inr \<lparr>config = cfg, reply = \<lparr>status = st, data = d\<rparr>\<rparr>)"
  using assms
  by (cases d) (auto simp add: success_stage_def isBitbucketErrorResponse_def split: option.splits)

lemma success_stage_error_shape_examples:
  "success_stage \<lparr>config = list_repositories,
       reply = \<lparr>status = Some 200, data = JObj [(''type'', JStr ''error''), (''message'', JStr ''Bad credentials'')]\<rparr>\<rparr>
     = Inl (AxiosError ''Failed'' (Some list_repositories)
         (Some \<lparr>status = Some 200, data = JObj [(''type'', JStr ''error''), (''message'', JStr ''Bad credentials'')]\<rparr>))
   \<and> success_stage \<lparr>config = list_repositories,
       reply = \<lparr>status = Some 200, data = JObj [(''values'', JArr [])]\<rparr>\<rparr>
     = Inr \<lparr>config = list_repositories, reply = \<lparr>status = Some 200, data = JObj [(''values'', JArr [])]\<rparr>\<rparr>
   \<and> success_stage \<lparr>config = list_repositories, reply = \<lparr>status = Some 204, data = JStr []\<rparr>\<rparr>
     = Inr \<lparr>config = list_repositories, reply = \<lparr>status = Some 204, data = JStr []\<rparr>\<rparr>"
  using
    success_stage_error_shape [of "JObj [(''type'', JStr ''error''), (''message'', JStr ''Bad credentials'')]"
      list_repositories "Some 200"]
    success_stage_error_shape [of "JObj [(''values'', JArr [])]" list_repositories "Some 200"]
    success_stage_error_shape [of "JStr []" list_repositories "Some 204"]
  by simp

subsection \<open>The failure stage\<close>

text \<open>
  Were the failure stage handed the failure that the success stage synthesizes from a 2xx
  response, it would reject that same failure and do nothing else: the order in which
  the two stages are chained does not change what the caller receives.
\<close>

lemma failure_stage_on_synthesized:
  assumes "200 \<le> n" and "n < 300"
  shows "failure_stage appMode refreshFn logoutFn resubmit
           (AxiosError ''Failed'' (Some cfg) (Some \<lparr>status = Some n, data = d\<rparr>)) s =
         (Inl (AxiosError ''Failed'' (Some cfg) (Some \<lparr>status = Some n, data = d\<rparr>)), [], s)"
  using assms by (simp add: failure_stage_def)

lemma failure_stage_no_refresh:
  "\<not> canRefresh e \<Longrightarrow>
   failure_stage appMode refreshFn logoutFn resubmit e s =
     (Inl (Error ''Failed to refresh token''), [], s)"
  by (simp add: failure_stage_def)

subsection \<open>The client's runs\<close>

lemma retry_mergeConfig: "retry (mergeConfig s req) = retry req"
  by (simp add: mergeConfig_def split: option.splits)

lemma failure_stage_marked:
  "retry q \<Longrightarrow>
   failure_stage appMode refreshFn logoutFn resubmit (AxiosError msg (Some q) rep) s =
     (Inl (if canRefresh (AxiosError msg (Some q) rep) then AxiosError msg (Some q) rep
           else Error ''Failed to refresh token''), [], s)"
  by (simp add: failure_stage_def split: option.splits)

lemma failure_stage_first_401:
  assumes "status a = Some 401" "\<not> retry q"
  shows "failure_stage ''saas'' refreshFn logoutFn resubmit (AxiosError msg (Some q) (Some a)) s =
     (case refreshFn s of
        (Inr refreshed, s1) \<Rightarrow>
          if refreshed then
            (case resubmit (q\<lparr>retry := True\<rparr>) s1 of
               (Inr r, evs, s2) \<Rightarrow> (Inr r, RefreshCalled # evs, s2)
             | (Inl refreshError, evs, s2) \<Rightarrow>
                 (Inl refreshError, RefreshCalled # evs @ [LogoutCalled], logoutFn s2))
          else
            (Inl (Error ''Failed to refresh token''),
             [RefreshCalled, LogoutCalled, LogoutCalled], logoutFn (logoutFn s1))
      | (Inl refreshError, s1) \<Rightarrow>
          (Inl refreshError, [RefreshCalled, LogoutCalled], logoutFn s1))"
  using assms by (simp add: failure_stage_def Let_def)

lemma failure_stage_other:
  assumes "\<not> (status a = Some 401 \<and> \<not> retry q \<and> appMode = ''saas'')"
  shows "\<exists>e. failure_stage appMode refreshFn logoutFn resubmit (AxiosError msg (Some q) (Some a)) s =
           (Inl e, [], s)"
  using assms by (auto simp add: failure_stage_def Let_def)

text \<open>The client's defining equation, read off the network's three answers.\<close>

lemma bitbucket_settled:
  assumes "net (dispatched s) (mergeConfig s req) = Answered a" "settles a"
  shows "bitbucket net appMode refreshFn logoutFn req s =
           (success_stage \<lparr>config = mergeConfig s req, reply = a\<rparr>,
            [Dispatched (mergeConfig s req)], s\<lparr>dispatched := Suc (dispatched s)\<rparr>)"
  using assms by (subst bitbucket.simps) (simp add: Let_def)

lemma bitbucket_failed:
  assumes "net (dispatched s) (mergeConfig s req) = Answered a" "\<not> settles a"
  shows "bitbucket net appMode refreshFn logoutFn req s =
           (case failure_stage appMode refreshFn logoutFn (bitbucket net appMode refreshFn logoutFn)
                   (AxiosError (''Request failed with status code '' @ status_text (status a))
                      (Some (mergeConfig s req)) (Some a))
                   (s\<lparr>dispatched := Suc (dispatched s)\<rparr>)
            of (result, evs, s2) \<Rightarrow> (result, Dispatched (mergeConfig s req) # evs, s2))"
  using assms by (subst bitbucket.simps) (simp add: Let_def)

lemma bitbucket_no_response:
  assumes "net (dispatched s) (mergeConfig s req) = NoResponse msg"
  shows "bitbucket net appMode refreshFn logoutFn req s =
           (Inl (Error ''Failed to refresh token''), [Dispatched (mergeConfig s req)],
            s\<lparr>dispatched := Suc (dispatched s)\<rparr>)"
  using assms by (subst bitbucket.simps) (simp add: Let_def failure_stage_no_refresh)

lemma bitbucket_threw:
  assumes "net (dispatched s) (mergeConfig s req) = Threw msg"
  shows "bitbucket net appMode refreshFn logoutFn req s =
           (Inl (Error ''Failed to refresh token''), [Dispatched (mergeConfig s req)],
            s\<lparr>dispatched := Suc (dispatched s)\<rparr>)"
  using assms by (subst bitbucket.simps) (simp add: Let_def failure_stage_no_refresh)

text \<open>A request that already carries the marker is dispatched once and nothing else happens.\<close>

lemma bitbucket_marked:
  assumes "retry req"
  shows "\<exists>out. bitbucket net appMode refreshFn logoutFn req s =
           (out, [Dispatched (mergeConfig s req)], s\<lparr>dispatched := Suc (dispatched s)\<rparr>)"
proof (cases "net (dispatched s) (mergeConfig s req)")
  case (Answered a)
  show ?thesis
  proof (cases "settles a")
    case True
    from bitbucket_settled [where net=net and s=s and req=req, OF Answered True] show ?thesis by simp
  next
    case False
    from assms have "retry (mergeConfig s req)" by (simp add: retry_mergeConfig)
    from bitbucket_failed [where net=net and s=s and req=req, OF Answered False] failure_stage_marked [OF this]
    show ?thesis by simp
  qed
next
  case (NoResponse msg)
  from bitbucket_no_response [where net=net and s=s and req=req, OF this] show ?thesis by simp
next
  case (Threw msg)
  from bitbucket_threw [where net=net and s=s and req=req, OF this] show ?thesis by simp
qed

text \<open>Outside the multi-tenant mode the same holds for every request.\<close>

lemma bitbucket_not_saas:
  assumes "appMode \<noteq> ''saas''"
  shows "\<exists>out. bitbucket net appMode refreshFn logoutFn req s =
           (out, [Dispatched (mergeConfig s req)], s\<lparr>dispatched := Suc (dispatched s)\<rparr>)"
proof (cases "net (dispatched s) (mergeConfig s req)")
  case (Answered a)
  show ?thesis
  proof (cases "settles a")
    case True
    from bitbucket_settled [where net=net and s=s and req=req, OF Answered True] show ?thesis by simp
  next
    case False
    from assms have "\<not> (status a = Some 401 \<and> \<not> retry (mergeConfig s req) \<and> appMode = ''saas'')"
      by simp
    from failure_stage_other [OF this] obtain e where
      "failure_stage appMode refreshFn logoutFn (bitbucket net appMode refreshFn logoutFn)
         (AxiosError (''Request failed with status code '' @ status_text (status a))
            (Some (mergeConfig s req)) (Some a))
         (s\<lparr>dispatched := Suc (dispatched s)\<rparr>) = (Inl e, [], s\<lparr>dispatched := Suc (dispatched s)\<rparr>)"
      by blast
    with bitbucket_failed [where net=net and s=s and req=req, OF Answered False] show ?thesis by simp
  qed
next
  case (NoResponse msg)
  from bitbucket_no_response [where net=net and s=s and req=req, OF this] show ?thesis by simp
next
  case (Threw msg)
  from bitbucket_threw [where net=net and s=s and req=req, OF this] show ?thesis by simp
qed

lemma signed_in_fields:
  "bitbucketAuthorization signed_in = Some ''Bearer bb-token''"
  "bitbucketTokenState signed_in = Some ''bb-token''"
  "gitHubTokenState signed_in = Some ''gh-token''"
  "githubAuthorization signed_in = Some ''Bearer gh-token''"
  "userIdState signed_in = []"
  "dispatched signed_in = 0"
  "apiLog signed_in = []"
  by (simp_all add: signed_in_def session_defs signed_out_def Let_def)

lemma merged_list_repositories:
  "mergeConfig signed_in list_repositories =
     \<lparr>url = ''/repositories'', authorization = Some ''Bearer bb-token'', retry = False\<rparr>"
  by (simp add: mergeConfig_def list_repositories_def signed_in_fields)

text \<open>
  C6 (as amended). A failure that \<^verbatim>\<open>canRefresh\<close> turns down (not an \<^verbatim>\<open>AxiosError\<close>, or
  its configuration, its response or a truthy status missing) calls no callback and
  resubmits nothing, leaves the state as it was, and reaches the caller as the generic
  error \<^verbatim>\<open>Failed to refresh token\<close> in place of the original failure. So does a
  request that the network leaves without a response: it is dispatched once.
\<close>

theorem transport_failure_rejected_generic:
  "canRefresh (AxiosError msg cfg rep) =
     (cfg \<noteq> None \<and> rep \<noteq> None \<and> status (the rep) \<noteq> None \<and> status (the rep) \<noteq> Some 0)
   \<and> \<not> canRefresh (Error msg) \<and> \<not> canRefresh (TypeError msg)
   \<and> (\<not> canRefresh e \<longrightarrow>
        failure_stage appMode refreshFn logoutFn resubmit e s =
          (Inl (Error ''Failed to refresh token''), [], s))
   \<and> (net (dispatched s) (mergeConfig s req) = NoResponse msg \<longrightarrow>
        bitbucket net appMode refreshFn logoutFn req s =
          (Inl (Error ''Failed to refresh token''), [Dispatched (mergeConfig s req)],
           s\<lparr>dispatched := Suc (dispatched s)\<rparr>))"
  using bitbucket_no_response [where net=net and s=s and req=req and msg=msg]
  by (auto simp add: failure_stage_no_refresh split: option.splits)

theorem transport_failure_rejected_generic_witness:
  "\<not> canRefresh (AxiosError ''Network Error'' (Some list_repositories) None)
   \<and> failure_stage ''saas'' refresh_succeeds logout
        (bitbucket always_401 ''saas'' refresh_succeeds logout)
        (AxiosError ''Network Error'' (Some list_repositories) None) signed_in
      = (Inl (Error ''Failed to refresh token''), [], signed_in)
   \<and> offline (dispatched signed_in) (mergeConfig signed_in list_repositories) = NoResponse ''Network Error''
   \<and> bitbucket offline ''saas'' refresh_succeeds logout list_repositories signed_in =
       (Inl (Error ''Failed to refresh token''),
        [Dispatched \<lparr>url = ''/repositories'', authorization = Some ''Bearer bb-token'', retry = False\<rparr>],
        signed_in\<lparr>dispatched := 1\<rparr>)"
proof -
  have h: "\<not> canRefresh (AxiosError ''Network Error'' (Some list_repositories) None)" by simp
  have n: "offline (dispatched signed_in) (mergeConfig signed_in list_repositories) = NoResponse ''Network Error''"
    by (simp add: offline_def)
  from transport_failure_rejected_generic
    [where msg="''Network Error''" and cfg="Some list_repositories" and rep=None
      and e="AxiosError ''Network Error'' (Some list_repositories) None"
      and net=offline and s=signed_in and req=list_repositories] h n
  show ?thesis by (simp add: merged_list_repositories signed_in_fields)
qed

text \<open>
  C6 fails as stated: the network failure the transport rejected with is not what the
  caller receives.
\<close>

theorem transport_failure_replaced_counterexample:
  "result_of (failure_stage ''saas'' refresh_succeeds logout
      (bitbucket always_401 ''saas'' refresh_succeeds logout)
      (AxiosError ''Network Error'' (Some list_repositories) None) signed_in)
   \<noteq> Inl (AxiosError ''Network Error'' (Some list_repositories) None)"
  by (simp add: failure_stage_def result_of_def)

lemma failure_stage_events:
  assumes one: "\<And>s1. \<exists>out d s2. resubmit (q\<lparr>retry := True\<rparr>) s1 = (out, [Dispatched d], s2) \<and> retry d"
    and run: "failure_stage appMode refreshFn logoutFn resubmit (AxiosError msg (Some q) rep) s = (out, evs, s')"
  shows "length (dispatches evs) \<le> 1 \<and> count_list evs RefreshCalled \<le> 1 \<and> list_all retry (dispatches evs)"
proof (cases rep)
  case None
  then have "\<not> canRefresh (AxiosError msg (Some q) rep)" by simp
  from failure_stage_no_refresh [OF this] run show ?thesis by simp
next
  case (Some a)
  show ?thesis
  proof (cases "status a = Some 401 \<and> \<not> retry q \<and> appMode = ''saas''")
    case False
    from failure_stage_other [OF this, of refreshFn logoutFn resubmit msg s] run Some
    show ?thesis by auto
  next
    case True
    then have st: "status a = Some 401" and nr: "\<not> retry q" and saas: "appMode = ''saas''"
      by simp_all
    note eq = failure_stage_first_401 [OF st nr, of refreshFn logoutFn resubmit msg s]
    obtain res s1 where rf: "refreshFn s = (res, s1)" by (cases "refreshFn s")
    show ?thesis
    proof (cases res)
      case (Inl e)
      with eq rf run Some saas show ?thesis by auto
    next
      case (Inr refreshed)
      show ?thesis
      proof (cases refreshed)
        case False
        with eq rf run Some saas Inr show ?thesis by auto
      next
        case True
        from one obtain out1 d s2 where
          rs: "resubmit (q\<lparr>retry := True\<rparr>) s1 = (out1, [Dispatched d], s2)" and "retry d"
          by blast
        with eq rf run Some saas Inr True show ?thesis
          by (cases out1) auto
      qed
    qed
  qed
qed

lemma bitbucket_events:
  assumes run: "bitbucket net appMode refreshFn logoutFn req s = (out, evs, s')"
  shows "length (dispatches evs) \<le> 2 \<and> count_list evs RefreshCalled \<le> 1
       \<and> list_all retry (tl (dispatches evs))"
proof -
  let ?cfg = "mergeConfig s req"
  let ?s1 = "s\<lparr>dispatched := Suc (dispatched s)\<rparr>"
  let ?rs = "bitbucket net appMode refreshFn logoutFn"
  have one: "\<exists>out d s2. ?rs (?cfg\<lparr>retry := True\<rparr>) s1 = (out, [Dispatched d], s2) \<and> retry d" for s1
  proof -
    have "retry (?cfg\<lparr>retry := True\<rparr>)" by simp
    from bitbucket_marked [OF this, of net appMode refreshFn logoutFn s1]
    show ?thesis by (auto simp add: retry_mergeConfig)
  qed
  show ?thesis
  proof (cases "net (dispatched s) ?cfg")
    case (Answered a)
    show ?thesis
    proof (cases "settles a")
      case True
      from bitbucket_settled [where net=net and s=s and req=req, OF Answered True, of appMode refreshFn logoutFn] run
      show ?thesis by auto
    next
      case False
      obtain out' evs' s'' where f: "failure_stage appMode refreshFn logoutFn ?rs
          (AxiosError (''Request failed with status code '' @ status_text (status a)) (Some ?cfg) (Some a)) ?s1
          = (out', evs', s'')"
        by (metis prod_cases3)
      from bitbucket_failed [where net=net and s=s and req=req, OF Answered False, of appMode refreshFn logoutFn] run f
      have "evs = Dispatched ?cfg # evs'" by simp
      with failure_stage_events [OF one f] show ?thesis by simp
    qed
  next
    case (NoResponse msg)
    from bitbucket_no_response [where net=net and s=s and req=req, OF this, of appMode refreshFn logoutFn] run show ?thesis by auto
  next
    case (Threw msg)
    from bitbucket_threw [where net=net and s=s and req=req, OF this, of appMode refreshFn logoutFn] run show ?thesis by auto
  qed
qed

lemma status_text_401: "status_text (Some 401) = ''401''"
  by (simp add: status_text_def decimal.simps)

lemma failure_stage_dispatches:
  assumes one: "\<And>s1. \<exists>out s2. resubmit (q\<lparr>retry := True\<rparr>) s1 = (out, [Dispatched (f s1)], s2)"
    and run: "failure_stage appMode refreshFn logoutFn resubmit (AxiosError msg (Some q) rep) s = (out, evs, s')"
  shows "dispatches evs = [] \<or> (\<exists>s1. dispatches evs = [f s1])"
proof (cases rep)
  case None
  then have "\<not> canRefresh (AxiosError msg (Some q) rep)" by simp
  from failure_stage_no_refresh [OF this] run show ?thesis by simp
next
  case (Some a)
  show ?thesis
  proof (cases "status a = Some 401 \<and> \<not> retry q \<and> appMode = ''saas''")
    case False
    from failure_stage_other [OF this, of refreshFn logoutFn resubmit msg s] run Some
    show ?thesis by auto
  next
    case True
    then have st: "status a = Some 401" and nr: "\<not> retry q" and saas: "appMode = ''saas''"
      by simp_all
    note eq = failure_stage_first_401 [OF st nr, of refreshFn logoutFn resubmit msg s]
    obtain res s1 where rf: "refreshFn s = (res, s1)" by (cases "refreshFn s")
    show ?thesis
    proof (cases res)
      case (Inl e)
      with eq rf run Some saas show ?thesis by auto
    next
      case (Inr refreshed)
      show ?thesis
      proof (cases refreshed)
        case False
        with eq rf run Some saas Inr show ?thesis by auto
      next
        case True
        from one obtain out1 s2 where
          rs: "resubmit (q\<lparr>retry := True\<rparr>) s1 = (out1, [Dispatched (f s1)], s2)"
          by blast
        with eq rf run Some saas Inr True show ?thesis
          by (cases out1) auto
      qed
    qed
  qed
qed

lemma bitbucket_dispatches:
  assumes run: "bitbucket net appMode refreshFn logoutFn req s = (out, evs, s')"
  shows "dispatches evs = [mergeConfig s req]
       \<or> (\<exists>s1. dispatches evs =
             [mergeConfig s req, mergeConfig s1 ((mergeConfig s req)\<lparr>retry := True\<rparr>)])"
proof -
  let ?cfg = "mergeConfig s req"
  let ?s1 = "s\<lparr>dispatched := Suc (dispatched s)\<rparr>"
  let ?rs = "bitbucket net appMode refreshFn logoutFn"
  have one: "\<exists>out s2. ?rs (?cfg\<lparr>retry := True\<rparr>) s1 =
      (out, [Dispatched (mergeConfig s1 (?cfg\<lparr>retry := True\<rparr>))], s2)" for s1
  proof -
    have "retry (?cfg\<lparr>retry := True\<rparr>)" by simp
    from bitbucket_marked [OF this, of net appMode refreshFn logoutFn s1]
    show ?thesis by auto
  qed
  show ?thesis
  proof (cases "net (dispatched s) ?cfg")
    case (Answered a)
    show ?thesis
    proof (cases "settles a")
      case True
      from bitbucket_settled [where net=net and s=s and req=req, OF Answered True, of appMode refreshFn logoutFn] run
      show ?thesis by auto
    next
      case False
      obtain out' evs' s'' where f: "failure_stage appMode refreshFn logoutFn ?rs
          (AxiosError (''Request failed with status code '' @ status_text (status a)) (Some ?cfg) (Some a)) ?s1
          = (out', evs', s'')"
        by (metis prod_cases3)
      from bitbucket_failed [where net=net and s=s and req=req, OF Answered False, of appMode refreshFn logoutFn] run f
      have "evs = Dispatched ?cfg # evs'" by simp
      with failure_stage_dispatches [of ?rs ?cfg "\<lambda>s1. mergeConfig s1 (?cfg\<lparr>retry := True\<rparr>)", OF one f]
      show ?thesis by simp
    qed
  next
    case (NoResponse msg)
    from bitbucket_no_response [where net=net and s=s and req=req, OF this, of appMode refreshFn logoutFn] run
    show ?thesis by auto
  next
    case (Threw msg)
    from bitbucket_threw [where net=net and s=s and req=req, OF this, of appMode refreshFn logoutFn] run
    show ?thesis by auto
  qed
qed

text \<open>
  C2. Whatever the network answers and whatever the callbacks do, one call of the client
  hands at most two requests to the network and calls the refresh callback at most once;
  a second request, when there is one, is the first configuration with the marker set.
  A 401 on a configuration that carries the marker is rejected to the caller as it is,
  with no callback called and nothing resubmitted.
\<close>

theorem retry_at_most_once:
  "length (dispatches (events_of (bitbucket net appMode refreshFn logoutFn req s))) \<le> 2
   \<and> count_list (events_of (bitbucket net appMode refreshFn logoutFn req s)) RefreshCalled \<le> 1
   \<and> (dispatches (events_of (bitbucket net appMode refreshFn logoutFn req s)) = [mergeConfig s req]
      \<or> (\<exists>s1. dispatches (events_of (bitbucket net appMode refreshFn logoutFn req s)) =
            [mergeConfig s req, mergeConfig s1 ((mergeConfig s req)\<lparr>retry := True\<rparr>)]))
   \<and> failure_stage appMode refreshFn logoutFn resubmit
        (AxiosError msg (Some (q\<lparr>retry := True\<rparr>)) (Some \<lparr>status = Some 401, data = d\<rparr>)) s0 =
      (Inl (AxiosError msg (Some (q\<lparr>retry := True\<rparr>)) (Some \<lparr>status = Some 401, data = d\<rparr>)), [], s0)"
proof -
  obtain out evs s' where run: "bitbucket net appMode refreshFn logoutFn req s = (out, evs, s')"
    by (metis prod_cases3)
  from bitbucket_events [OF run] bitbucket_dispatches [OF run] run
  have "length (dispatches (events_of (bitbucket net appMode refreshFn logoutFn req s))) \<le> 2
   \<and> count_list (events_of (bitbucket net appMode refreshFn logoutFn req s)) RefreshCalled \<le> 1
   \<and> (dispatches (events_of (bitbucket net appMode refreshFn logoutFn req s)) = [mergeConfig s req]
      \<or> (\<exists>s1. dispatches (events_of (bitbucket net appMode refreshFn logoutFn req s)) =
            [mergeConfig s req, mergeConfig s1 ((mergeConfig s req)\<lparr>retry := True\<rparr>)]))"
    by (simp add: events_of_def)
  moreover have "failure_stage appMode refreshFn logoutFn resubmit
        (AxiosError msg (Some (q\<lparr>retry := True\<rparr>)) (Some \<lparr>status = Some 401, data = d\<rparr>)) s0 =
      (Inl (AxiosError msg (Some (q\<lparr>retry := True\<rparr>)) (Some \<lparr>status = Some 401, data = d\<rparr>)), [], s0)"
    by (simp add: failure_stage_marked)
  ultimately show ?thesis by blast
qed

text \<open>
  C7. When the mode given to the interceptor is not \<^verbatim>\<open>saas\<close>, the failure stage answers
  a 401 by rejecting the same error (its configuration now marked) without calling a
  callback or resubmitting, and every call of the client consists of one dispatch and
  nothing else.
\<close>

theorem no_refresh_outside_saas:
  assumes "appMode \<noteq> ''saas''"
  shows "failure_stage appMode refreshFn logoutFn resubmit
           (AxiosError msg (Some q) (Some \<lparr>status = Some 401, data = d\<rparr>)) s0 =
         (Inl (AxiosError msg (Some (q\<lparr>retry := True\<rparr>)) (Some \<lparr>status = Some 401, data = d\<rparr>)), [], s0)
       \<and> events_of (bitbucket net appMode refreshFn logoutFn req s) = [Dispatched (mergeConfig s req)]
       \<and> state_of (bitbucket net appMode refreshFn logoutFn req s) = s\<lparr>dispatched := Suc (dispatched s)\<rparr>
       \<and> (net (dispatched s) (mergeConfig s req) = Answered \<lparr>status = Some 401, data = d\<rparr> \<longrightarrow>
            result_of (bitbucket net appMode refreshFn logoutFn req s) =
              Inl (AxiosError ''Request failed with status code 401''
                    (Some ((mergeConfig s req)\<lparr>retry := True\<rparr>))
                    (Some \<lparr>status = Some 401, data = d\<rparr>)))"
proof -
  have stage: "failure_stage appMode refreshFn logoutFn resubmit
           (AxiosError msg (Some q) (Some \<lparr>status = Some 401, data = d\<rparr>)) s0 =
         (Inl (AxiosError msg (Some (q\<lparr>retry := True\<rparr>)) (Some \<lparr>status = Some 401, data = d\<rparr>)), [], s0)"
    for refreshFn logoutFn resubmit msg q s0
    using assms by (cases q) (simp add: failure_stage_def Let_def)
  from bitbucket_not_saas [OF assms, of net refreshFn logoutFn req s]
  have ev: "events_of (bitbucket net appMode refreshFn logoutFn req s) = [Dispatched (mergeConfig s req)]"
    and st: "state_of (bitbucket net appMode refreshFn logoutFn req s) = s\<lparr>dispatched := Suc (dispatched s)\<rparr>"
    by (auto simp add: outcome_defs)
  have res: "result_of (bitbucket net appMode refreshFn logoutFn req s) =
              Inl (AxiosError ''Request failed with status code 401''
                    (Some ((mergeConfig s req)\<lparr>retry := True\<rparr>))
                    (Some \<lparr>status = Some 401, data = d\<rparr>))"
    if a: "net (dispatched s) (mergeConfig s req) = Answered \<lparr>status = Some 401, data = d\<rparr>"
  proof -
    have ns: "\<not> settles \<lparr>status = Some 401, data = d\<rparr>" by (simp add: settles_def)
    from bitbucket_failed [where net=net and s=s and req=req, OF a ns, of appMode refreshFn logoutFn]
    show ?thesis by (simp add: stage status_text_401 result_of_def)
  qed
  from stage ev st res show ?thesis by blast
qed

theorem no_refresh_outside_saas_witness:
  "''oss'' \<noteq> ''saas''
   \<and> events_of (bitbucket always_401 ''oss'' refresh_succeeds logout list_repositories signed_in) =
       [Dispatched \<lparr>url = ''/repositories'', authorization = Some ''Bearer bb-token'', retry = False\<rparr>]
   \<and> result_of (bitbucket always_401 ''oss'' refresh_succeeds logout list_repositories signed_in) =
       Inl (AxiosError ''Request failed with status code 401''
             (Some \<lparr>url = ''/repositories'', authorization = Some ''Bearer bb-token'', retry = True\<rparr>)
             (Some \<lparr>status = Some 401, data = JNull\<rparr>))"
proof -
  have h: "''oss'' \<noteq> ''saas''" by simp
  have a: "always_401 (dispatched signed_in) (mergeConfig signed_in list_repositories) =
             Answered \<lparr>status = Some 401, data = JNull\<rparr>"
    by (simp add: always_401_def unauthorized_def)
  from no_refresh_outside_saas [OF h, of refresh_succeeds logout _ _ _ JNull _ always_401 list_repositories signed_in] a h
  show ?thesis by (simp add: merged_list_repositories)
qed

lemma retry_example:
  "events_of (bitbucket always_401 ''saas'' refresh_succeeds logout list_repositories signed_in) =
     [Dispatched \<lparr>url = ''/repositories'', authorization = Some ''Bearer bb-token'', retry = False\<rparr>,
      RefreshCalled,
      Dispatched \<lparr>url = ''/repositories'', authorization = Some ''Bearer bb-token'', retry = True\<rparr>,
      LogoutCalled]"
proof -
  let ?cfg = "\<lparr>url = ''/repositories'', authorization = Some ''Bearer bb-token'', retry = False\<rparr>"
  let ?s1 = "signed_in\<lparr>dispatched := Suc (dispatched signed_in)\<rparr>"
  have ns: "\<not> settles unauthorized" by (simp add: settles_def unauthorized_def)
  have a1: "always_401 (dispatched signed_in) (mergeConfig signed_in list_repositories) = Answered unauthorized"
    by (simp add: always_401_def)
  have a2: "always_401 (dispatched ?s1) (mergeConfig ?s1 (?cfg\<lparr>retry := True\<rparr>)) = Answered unauthorized"
    by (simp add: always_401_def)
  have m2: "mergeConfig ?s1 (?cfg\<lparr>retry := True\<rparr>) = ?cfg\<lparr>retry := True\<rparr>"
    by (simp add: mergeConfig_def)
  have inner: "bitbucket always_401 ''saas'' refresh_succeeds logout (?cfg\<lparr>retry := True\<rparr>) ?s1 =
      (Inl (AxiosError ''Request failed with status code 401'' (Some (?cfg\<lparr>retry := True\<rparr>)) (Some unauthorized)),
       [Dispatched (?cfg\<lparr>retry := True\<rparr>)], ?s1\<lparr>dispatched := Suc (dispatched ?s1)\<rparr>)"
    using bitbucket_failed [where net=always_401 and s="?s1" and req="?cfg\<lparr>retry := True\<rparr>", OF a2 ns,
        of "''saas''" refresh_succeeds logout]
    by (simp add: mergeConfig_def failure_stage_marked unauthorized_def status_text_401)
  have st: "status unauthorized = Some 401" by (simp add: unauthorized_def)
  have nr: "\<not> retry ?cfg" by simp
  show ?thesis
    using bitbucket_failed [where net=always_401 and s=signed_in and req=list_repositories, OF a1 ns,
        of "''saas''" refresh_succeeds logout]
    by (simp add: merged_list_repositories failure_stage_first_401 [OF st nr] refresh_succeeds_def
        inner [simplified] events_of_def)
qed


theorem retry_at_most_once_witness:
  "dispatches (events_of (bitbucket always_401 ''saas'' refresh_succeeds logout list_repositories signed_in)) =
     [\<lparr>url = ''/repositories'', authorization = Some ''Bearer bb-token'', retry = False\<rparr>,
      \<lparr>url = ''/repositories'', authorization = Some ''Bearer bb-token'', retry = True\<rparr>]
   \<and> length (dispatches (events_of
         (bitbucket always_401 ''saas'' refresh_succeeds logout list_repositories signed_in))) \<le> 2
   \<and> count_list (events_of
         (bitbucket always_401 ''saas'' refresh_succeeds logout list_repositories signed_in)) RefreshCalled = 1"
  using retry_at_most_once [of always_401 "''saas''" refresh_succeeds logout list_repositories signed_in]
    retry_example
  by simp

subsection \<open>Refresh failure and logout\<close>

lemma logout_cleared:
  "gitHubTokenState (logout s) = None"
  "bitbucketTokenState (logout s) = None"
  "localStorage (logout s) ''ghToken'' = None"
  "localStorage (logout s) ''bitbucketToken'' = None"
  "userIdState (logout s) = []"
  "localStorage (logout s) ''userId'' = None"
  by (auto simp add: session_defs)

text \<open>
  C4. On a first 401 in \<^verbatim>\<open>saas\<close> mode, when the refresh callback resolves to
  \<^verbatim>\<open>false\<close> or rejects, the failure stage calls the logout callback and rejects: with
  the generic error in the first case, with the callback's error in the second. Nothing
  is resubmitted. With the context's \<^verbatim>\<open>logout\<close> as the callback, the state left
  behind holds no token of either provider and no user id, in memory or in localStorage.
  The same holds of the client as a whole when the network answers 401.
\<close>

theorem refresh_failure_logs_out_and_rejects:
  assumes "status a = Some 401" and "\<not> retry q"
  shows "(refreshFn s = (Inr False, s1) \<longrightarrow>
            failure_stage ''saas'' refreshFn logout resubmit (AxiosError msg (Some q) (Some a)) s =
              (Inl (Error ''Failed to refresh token''),
               [RefreshCalled, LogoutCalled, LogoutCalled], logout s1))
       \<and> (refreshFn s = (Inl e, s1) \<longrightarrow>
            failure_stage ''saas'' refreshFn logout resubmit (AxiosError msg (Some q) (Some a)) s =
              (Inl e, [RefreshCalled, LogoutCalled], logout s1))
       \<and> (net (dispatched s) (mergeConfig s q) = Answered a
            \<and> refreshFn (s\<lparr>dispatched := Suc (dispatched s)\<rparr>) = (Inr False, s1) \<longrightarrow>
            bitbucket net ''saas'' refreshFn logout q s =
              (Inl (Error ''Failed to refresh token''),
               [Dispatched (mergeConfig s q), RefreshCalled, LogoutCalled, LogoutCalled], logout s1))
       \<and> (net (dispatched s) (mergeConfig s q) = Answered a
            \<and> refreshFn (s\<lparr>dispatched := Suc (dispatched s)\<rparr>) = (Inl e, s1) \<longrightarrow>
            bitbucket net ''saas'' refreshFn logout q s =
              (Inl e, [Dispatched (mergeConfig s q), RefreshCalled, LogoutCalled], logout s1))
       \<and> gitHubTokenState (logout s1) = None
       \<and> bitbucketTokenState (logout s1) = None
       \<and> localStorage (logout s1) ''ghToken'' = None
       \<and> localStorage (logout s1) ''bitbucketToken'' = None
       \<and> userIdState (logout s1) = []
       \<and> localStorage (logout s1) ''userId'' = None"
proof -
  note stage = failure_stage_first_401 [OF assms(1), of _ _ logout]
  have ns: "\<not> settles a" using assms(1) by (simp add: settles_def)
  have nr: "\<not> retry (mergeConfig s q)" using assms(2) by (simp add: retry_mergeConfig)
  have 1: "failure_stage ''saas'' refreshFn logout resubmit (AxiosError msg (Some q) (Some a)) s =
              (Inl (Error ''Failed to refresh token''),
               [RefreshCalled, LogoutCalled, LogoutCalled], logout s1)"
    if "refreshFn s = (Inr False, s1)"
    using that by (simp add: stage [OF assms(2)] logout_logout)
  have 2: "failure_stage ''saas'' refreshFn logout resubmit (AxiosError msg (Some q) (Some a)) s =
              (Inl e, [RefreshCalled, LogoutCalled], logout s1)"
    if "refreshFn s = (Inl e, s1)"
    using that by (simp add: stage [OF assms(2)])
  have 3: "bitbucket net ''saas'' refreshFn logout q s =
              (Inl (Error ''Failed to refresh token''),
               [Dispatched (mergeConfig s q), RefreshCalled, LogoutCalled, LogoutCalled], logout s1)"
    if n: "net (dispatched s) (mergeConfig s q) = Answered a"
      and r: "refreshFn (s\<lparr>dispatched := Suc (dispatched s)\<rparr>) = (Inr False, s1)"
    using bitbucket_failed [where net=net and s=s and req=q, OF n ns, of "''saas''" refreshFn logout] r
    by (simp add: stage [OF nr] logout_logout)
  have 4: "bitbucket net ''saas'' refreshFn logout q s =
              (Inl e, [Dispatched (mergeConfig s q), RefreshCalled, LogoutCalled], logout s1)"
    if n: "net (dispatched s) (mergeConfig s q) = Answered a"
      and r: "refreshFn (s\<lparr>dispatched := Suc (dispatched s)\<rparr>) = (Inl e, s1)"
    using bitbucket_failed [where net=net and s=s and req=q, OF n ns, of "''saas''" refreshFn logout] r
    by (simp add: stage [OF nr])
  from 1 2 3 4 logout_cleared [of s1] show ?thesis by blast
qed

theorem refresh_failure_logs_out_and_rejects_witness:
  "status unauthorized = Some 401 \<and> \<not> retry list_repositories
   \<and> bitbucket always_401 ''saas'' refresh_fails logout list_repositories signed_in =
       (Inl (Error ''Failed to refresh token''),
        [Dispatched \<lparr>url = ''/repositories'', authorization = Some ''Bearer bb-token'', retry = False\<rparr>,
         RefreshCalled, LogoutCalled, LogoutCalled],
        logout (signed_in\<lparr>dispatched := 1\<rparr>))
   \<and> bitbucket always_401 ''saas'' refresh_throws logout list_repositories signed_in =
       (Inl (Error ''refresh endpoint unreachable''),
        [Dispatched \<lparr>url = ''/repositories'', authorization = Some ''Bearer bb-token'', retry = False\<rparr>,
         RefreshCalled, LogoutCalled],
        logout (signed_in\<lparr>dispatched := 1\<rparr>))
   \<and> gitHubTokenState signed_in = Some ''gh-token''
   \<and> gitHubTokenState (logout (signed_in\<lparr>dispatched := 1\<rparr>)) = None
   \<and> bitbucketTokenState (logout (signed_in\<lparr>dispatched := 1\<rparr>)) = None"
proof -
  have st: "status unauthorized = Some 401" by (simp add: unauthorized_def)
  have nr: "\<not> retry list_repositories" by (simp add: list_repositories_def)
  have n: "always_401 (dispatched signed_in) (mergeConfig signed_in list_repositories) = Answered unauthorized"
    by (simp add: always_401_def)
  have f: "refresh_fails (signed_in\<lparr>dispatched := Suc (dispatched signed_in)\<rparr>) =
             (Inr False, signed_in\<lparr>dispatched := 1\<rparr>)"
    by (simp add: refresh_fails_def signed_in_fields)
  have t: "refresh_throws (signed_in\<lparr>dispatched := Suc (dispatched signed_in)\<rparr>) =
             (Inl (Error ''refresh endpoint unreachable''), signed_in\<lparr>dispatched := 1\<rparr>)"
    by (simp add: refresh_throws_def signed_in_fields)
  from refresh_failure_logs_out_and_rejects [OF st nr,
      of refresh_fails signed_in "signed_in\<lparr>dispatched := 1\<rparr>" _ _ _ always_401] n f
    refresh_failure_logs_out_and_rejects [OF st nr,
      of refresh_throws signed_in "signed_in\<lparr>dispatched := 1\<rparr>" _ _ "Error ''refresh endpoint unreachable''" always_401] n t
    st nr
  show ?thesis by (simp add: merged_list_repositories signed_in_fields)
qed

subsection \<open>The refresh coordinator\<close>

lemma exchanges_append: "exchanges (xs @ ys) = exchanges xs + exchanges ys"
  by (induction xs rule: exchanges.induct) simp_all

lemma logged_out_fields:
  "gitHubTokenState (logout signed_in) = None"
  "bitbucketTokenState (logout signed_in) = None"
  "bitbucketAuthorization (logout signed_in) = None"
  "localStorage (logout signed_in) ''ghToken'' = None"
  "userIdState (logout signed_in) = []"
  "dispatched (logout signed_in) = 0"
  "apiLog (logout signed_in) = []"
  by (simp_all add: signed_in_def session_defs signed_out_def Let_def)

text \<open>
  Whatever its closure holds and whatever it returns, \<^verbatim>\<open>refreshToken\<close> leaves the
  Bitbucket credential and header alone.
\<close>

lemma refreshToken_frame:
  "bitbucketTokenState (snd (refreshToken api g u s)) = bitbucketTokenState s
   \<and> bitbucketAuthorization (snd (refreshToken api g u s)) = bitbucketAuthorization s
   \<and> localStorage (snd (refreshToken api g u s)) ''bitbucketToken'' = localStorage s ''bitbucketToken''
   \<and> dispatched (snd (refreshToken api g u s)) = dispatched s"
  by (auto simp add: refreshToken_def session_defs Let_def split: sum.splits option.splits)

text \<open>
  C3 (as amended). Let \<open>g\<close> and \<open>u\<close> be the GitHub token and the user id that the
  closure of \<^verbatim>\<open>refreshToken\<close> holds. If the configuration fetch rejects, so does
  \<^verbatim>\<open>refreshToken\<close>, with no exchange called and nothing changed. With the configuration
  fetched: unless its mode is \<^verbatim>\<open>saas\<close> and \<open>g\<close> is truthy, the result is \<^verbatim>\<open>false\<close>,
  again with no exchange and nothing changed. Otherwise the exchange is called once, for
  \<open>u\<close>; a non-empty token is installed (state, localStorage, both GitHub headers) and the
  result is \<^verbatim>\<open>true\<close>; an exchange that resolves without a token clears the GitHub
  credential and the result is \<^verbatim>\<open>false\<close>; an exchange that rejects makes
  \<^verbatim>\<open>refreshToken\<close> reject with the same error, the credential untouched. In the first
  two cases the only trace is the fetch in the log of backend calls.
\<close>

theorem refreshToken_contract:
  "(getConfig api s = Inl e \<longrightarrow>
      refreshToken api g u s = (Inl e, s\<lparr>apiLog := apiLog s @ [GetConfig]\<rparr>))
   \<and> (getConfig api s = Inr mode \<and> (mode \<noteq> ''saas'' \<or> \<not> truthy g) \<longrightarrow>
      refreshToken api g u s = (Inr False, s\<lparr>apiLog := apiLog s @ [GetConfig]\<rparr>))
   \<and> exchanges (apiLog (s\<lparr>apiLog := apiLog s @ [GetConfig]\<rparr>)) = exchanges (apiLog s)
   \<and> (getConfig api s = Inr ''saas'' \<and> truthy g \<longrightarrow>
      apiLog (snd (refreshToken api g u s)) = apiLog s @ [GetConfig, RefreshToken ''saas'' u]
      \<and> exchanges (apiLog (snd (refreshToken api g u s))) = Suc (exchanges (apiLog s)))
   \<and> (getConfig api s = Inr ''saas'' \<and> truthy g \<and> t \<noteq> []
        \<and> refreshTokenCall api (s\<lparr>apiLog := apiLog s @ [GetConfig]\<rparr>) ''saas'' u = Inr (Some t) \<longrightarrow>
      fst (refreshToken api g u s) = Inr True
      \<and> gitHubTokenState (snd (refreshToken api g u s)) = Some t
      \<and> localStorage (snd (refreshToken api g u s)) ''ghToken'' = Some t
      \<and> githubAuthorization (snd (refreshToken api g u s)) = Some (''Bearer '' @ t)
      \<and> openHandsGitHubToken (snd (refreshToken api g u s)) = Some t)
   \<and> (getConfig api s = Inr ''saas'' \<and> truthy g \<and> \<not> truthy newToken
        \<and> refreshTokenCall api (s\<lparr>apiLog := apiLog s @ [GetConfig]\<rparr>) ''saas'' u = Inr newToken \<longrightarrow>
      fst (refreshToken api g u s) = Inr False
      \<and> gitHubTokenState (snd (refreshToken api g u s)) = None
      \<and> localStorage (snd (refreshToken api g u s)) ''ghToken'' = None
      \<and> githubAuthorization (snd (refreshToken api g u s)) = None
      \<and> openHandsGitHubToken (snd (refreshToken api g u s)) = None)
   \<and> (getConfig api s = Inr ''saas'' \<and> truthy g
        \<and> refreshTokenCall api (s\<lparr>apiLog := apiLog s @ [GetConfig]\<rparr>) ''saas'' u = Inl e \<longrightarrow>
      refreshToken api g u s =
        (Inl e, s\<lparr>apiLog := apiLog s @ [GetConfig, RefreshToken ''saas'' u]\<rparr>))"
proof -
  have config_rejects: "refreshToken api g u s = (Inl e, s\<lparr>apiLog := apiLog s @ [GetConfig]\<rparr>)"
    if "getConfig api s = Inl e"
    using that by (simp add: refreshToken_def Let_def)
  have guard: "refreshToken api g u s = (Inr False, s\<lparr>apiLog := apiLog s @ [GetConfig]\<rparr>)"
    if "getConfig api s = Inr mode \<and> (mode \<noteq> ''saas'' \<or> \<not> truthy g)"
    using that by (auto simp add: refreshToken_def Let_def)
  have same: "exchanges (apiLog (s\<lparr>apiLog := apiLog s @ [GetConfig]\<rparr>)) = exchanges (apiLog s)"
    by (simp add: exchanges_append)
  have once: "apiLog (snd (refreshToken api g u s)) = apiLog s @ [GetConfig, RefreshToken ''saas'' u]
      \<and> exchanges (apiLog (snd (refreshToken api g u s))) = Suc (exchanges (apiLog s))"
    if "getConfig api s = Inr ''saas'' \<and> truthy g"
    using that
    by (auto simp add: refreshToken_def Let_def exchanges_append session_defs
        split: sum.splits option.splits)
  have installed: "fst (refreshToken api g u s) = Inr True
      \<and> gitHubTokenState (snd (refreshToken api g u s)) = Some t
      \<and> localStorage (snd (refreshToken api g u s)) ''ghToken'' = Some t
      \<and> githubAuthorization (snd (refreshToken api g u s)) = Some (''Bearer '' @ t)
      \<and> openHandsGitHubToken (snd (refreshToken api g u s)) = Some t"
    if "getConfig api s = Inr ''saas'' \<and> truthy g \<and> t \<noteq> []
        \<and> refreshTokenCall api (s\<lparr>apiLog := apiLog s @ [GetConfig]\<rparr>) ''saas'' u = Inr (Some t)"
    using that by (auto simp add: refreshToken_def Let_def session_defs)
  have cleared: "fst (refreshToken api g u s) = Inr False
      \<and> gitHubTokenState (snd (refreshToken api g u s)) = None
      \<and> localStorage (snd (refreshToken api g u s)) ''ghToken'' = None
      \<and> githubAuthorization (snd (refreshToken api g u s)) = None
      \<and> openHandsGitHubToken (snd (refreshToken api g u s)) = None"
    if "getConfig api s = Inr ''saas'' \<and> truthy g \<and> \<not> truthy newToken
        \<and> refreshTokenCall api (s\<lparr>apiLog := apiLog s @ [GetConfig]\<rparr>) ''saas'' u = Inr newToken"
    using that by (auto simp add: refreshToken_def Let_def session_defs split: option.splits)
  have rejected: "refreshToken api g u s =
        (Inl e, s\<lparr>apiLog := apiLog s @ [GetConfig, RefreshToken ''saas'' u]\<rparr>)"
    if "getConfig api s = Inr ''saas'' \<and> truthy g
        \<and> refreshTokenCall api (s\<lparr>apiLog := apiLog s @ [GetConfig]\<rparr>) ''saas'' u = Inl e"
    using that by (auto simp add: refreshToken_def Let_def)
  from config_rejects guard same once installed cleared rejected show ?thesis by blast
qed

theorem refreshToken_contract_witness:
  "getConfig saas_backend signed_in = Inr ''saas''
   \<and> truthy (Some ''gh-token'')
   \<and> fst (refreshToken saas_backend (Some ''gh-token'') [] signed_in) = Inr True
   \<and> gitHubTokenState (snd (refreshToken saas_backend (Some ''gh-token'') [] signed_in)) = Some ''gh-fresh''
   \<and> githubAuthorization (snd (refreshToken saas_backend (Some ''gh-token'') [] signed_in)) =
       Some ''Bearer gh-fresh''
   \<and> exchanges (apiLog (snd (refreshToken saas_backend (Some ''gh-token'') [] signed_in))) = 1
   \<and> getConfig oss_backend signed_in = Inr ''oss''
   \<and> refreshToken oss_backend (Some ''gh-token'') [] signed_in =
       (Inr False, signed_in\<lparr>apiLog := [GetConfig]\<rparr>)
   \<and> refreshToken saas_backend None [] signed_in = (Inr False, signed_in\<lparr>apiLog := [GetConfig]\<rparr>)
   \<and> getConfig unreachable_backend signed_in = Inl (Error ''Network Error'')
   \<and> refreshToken unreachable_backend (Some ''gh-token'') [] signed_in =
       (Inl (Error ''Network Error''), signed_in\<lparr>apiLog := [GetConfig]\<rparr>)"
proof -
  have c1: "getConfig saas_backend signed_in = Inr ''saas''"
    and c2: "getConfig oss_backend signed_in = Inr ''oss''"
    and c3: "getConfig unreachable_backend signed_in = Inl (Error ''Network Error'')"
    by (simp_all add: saas_backend_def oss_backend_def unreachable_backend_def)
  have g: "truthy (Some ''gh-token'')" "\<not> truthy None"
    by (simp_all add: truthy_def)
  have x: "refreshTokenCall saas_backend (signed_in\<lparr>apiLog := apiLog signed_in @ [GetConfig]\<rparr>)
             ''saas'' [] = Inr (Some ''gh-fresh'')"
    by (simp add: saas_backend_def)
  from refreshToken_contract
      [where api=saas_backend and s=signed_in and g="Some ''gh-token''" and u="[]" and t="''gh-fresh''"]
    refreshToken_contract
      [where api=oss_backend and s=signed_in and g="Some ''gh-token''" and u="[]" and mode="''oss''"]
    refreshToken_contract
      [where api=saas_backend and s=signed_in and g=None and u="[]" and mode="''saas''"]
    refreshToken_contract
      [where api=unreachable_backend and s=signed_in and g="Some ''gh-token''" and u="[]"
        and e="Error ''Network Error''"]
    c1 c2 c3 g x
  show ?thesis by (simp add: signed_in_fields)
qed

text \<open>
  C3 fails as stated when the exchange call rejects: \<^verbatim>\<open>refreshToken\<close>, here with the
  token and user id of the current state in its closure, does not return \<^verbatim>\<open>false\<close>
  and does not clear the credential.
\<close>

theorem refreshToken_exchange_rejects_counterexample:
  "fst (refreshToken failing_backend (gitHubTokenState signed_in) (userIdState signed_in) signed_in)
     \<noteq> Inr False
   \<and> gitHubTokenState
       (snd (refreshToken failing_backend (gitHubTokenState signed_in) (userIdState signed_in) signed_in))
     \<noteq> None"
  by (simp add: refreshToken_def failing_backend_def signed_in_fields truthy_def Let_def)

text \<open>
  The closure the interceptors hold keeps the token and the user id of the first render.
  Mounted with no token stored, it returns \<^verbatim>\<open>false\<close> without an exchange after a
  token has been set; mounted with a token stored, it calls the exchange and installs a
  GitHub token after \<^verbatim>\<open>logout\<close> has cleared the store.
\<close>

lemma refreshToken_at_mount_examples:
  "refreshToken_at_mount saas_backend Map.empty signed_in =
     (Inr False, signed_in\<lparr>apiLog := [GetConfig]\<rparr>)
   \<and> fst (refreshToken_at_mount saas_backend [''ghToken'' \<mapsto> ''gh-token''] (logout signed_in)) = Inr True
   \<and> apiLog (snd (refreshToken_at_mount saas_backend [''ghToken'' \<mapsto> ''gh-token''] (logout signed_in))) =
       [GetConfig, RefreshToken ''saas'' []]
   \<and> gitHubTokenState (snd (refreshToken_at_mount saas_backend [''ghToken'' \<mapsto> ''gh-token''] (logout signed_in))) =
       Some ''gh-fresh''"
  by (simp add: refreshToken_at_mount_def refreshToken_def saas_backend_def signed_in_fields
      logged_out_fields truthy_def Let_def session_defs)

lemma mergeConfig_again:
  assumes "bitbucketAuthorization s1 = bitbucketAuthorization s"
  shows "mergeConfig s1 ((mergeConfig s req)\<lparr>retry := True\<rparr>) = (mergeConfig s req)\<lparr>retry := True\<rparr>"
  using assms by (simp add: mergeConfig_def split: option.splits)

text \<open>
  C10. A first 401 from the Bitbucket client in \<^verbatim>\<open>saas\<close> mode, answered by a
  \<^verbatim>\<open>refreshToken\<close> that returns \<^verbatim>\<open>true\<close>, whatever token \<open>g\<close> and user id \<open>u\<close> its
  closure holds: the refresh has installed a GitHub token and has left the Bitbucket
  token (in memory and in localStorage) and the Bitbucket client's default header as
  they were, and the client has handed the network exactly two requests, the second
  being the first with the marker set and so with the same \<^verbatim>\<open>Authorization\<close> value.
\<close>

theorem refresh_leaves_bitbucket_credential:
  assumes n: "net (dispatched s) (mergeConfig s req) = Answered a"
    and st: "status a = Some 401"
    and nr: "\<not> retry req"
    and rf: "refreshToken api g u (s\<lparr>dispatched := Suc (dispatched s)\<rparr>) = (Inr True, s1)"
  shows "bitbucketTokenState s1 = bitbucketTokenState s
       \<and> localStorage s1 ''bitbucketToken'' = localStorage s ''bitbucketToken''
       \<and> bitbucketAuthorization s1 = bitbucketAuthorization s
       \<and> (\<exists>t. t \<noteq> [] \<and> gitHubTokenState s1 = Some t \<and> localStorage s1 ''ghToken'' = Some t
              \<and> githubAuthorization s1 = Some (''Bearer '' @ t))
       \<and> dispatches (events_of (bitbucket net ''saas'' (refreshToken api g u) logout req s)) =
           [mergeConfig s req, (mergeConfig s req)\<lparr>retry := True\<rparr>]
       \<and> map authorization
           (dispatches (events_of (bitbucket net ''saas'' (refreshToken api g u) logout req s))) =
           [authorization (mergeConfig s req), authorization (mergeConfig s req)]"
proof -
  let ?s0 = "s\<lparr>dispatched := Suc (dispatched s)\<rparr>"
  let ?cfg = "mergeConfig s req"
  from refreshToken_frame [of api g u ?s0] rf
  have frame: "bitbucketTokenState s1 = bitbucketTokenState s"
    "localStorage s1 ''bitbucketToken'' = localStorage s ''bitbucketToken''"
    "bitbucketAuthorization s1 = bitbucketAuthorization s"
    by simp_all
  from rf have github: "\<exists>t. t \<noteq> [] \<and> gitHubTokenState s1 = Some t \<and> localStorage s1 ''ghToken'' = Some t
      \<and> githubAuthorization s1 = Some (''Bearer '' @ t)"
    by (auto simp add: refreshToken_def session_defs Let_def split: sum.splits option.splits if_splits)
  have ns: "\<not> settles a" using st by (simp add: settles_def)
  have nrc: "\<not> retry ?cfg" using nr by (simp add: retry_mergeConfig)
  have "retry (?cfg\<lparr>retry := True\<rparr>)" by simp
  from bitbucket_marked [OF this, of net "''saas''" "refreshToken api g u" logout s1]
  obtain out where inner: "bitbucket net ''saas'' (refreshToken api g u) logout (?cfg\<lparr>retry := True\<rparr>) s1 =
      (out, [Dispatched (?cfg\<lparr>retry := True\<rparr>)], s1\<lparr>dispatched := Suc (dispatched s1)\<rparr>)"
    by (auto simp add: mergeConfig_again [OF frame(3)])
  have "dispatches (events_of (bitbucket net ''saas'' (refreshToken api g u) logout req s)) =
           [?cfg, ?cfg\<lparr>retry := True\<rparr>]"
    using bitbucket_failed [where net=net and s=s and req=req, OF n ns, of "''saas''" "refreshToken api g u" logout]
    by (cases out) (simp_all add: failure_stage_first_401 [OF st nrc] rf inner events_of_def)
  with frame github show ?thesis by simp
qed

theorem refresh_leaves_bitbucket_credential_witness:
  "always_401 (dispatched signed_in) (mergeConfig signed_in list_repositories) = Answered unauthorized
   \<and> status unauthorized = Some 401
   \<and> \<not> retry list_repositories
   \<and> fst (refreshToken_at_mount saas_backend [''ghToken'' \<mapsto> ''gh-token'']
            (signed_in\<lparr>dispatched := Suc (dispatched signed_in)\<rparr>)) = Inr True
   \<and> bitbucketAuthorization
       (snd (refreshToken_at_mount saas_backend [''ghToken'' \<mapsto> ''gh-token'']
              (signed_in\<lparr>dispatched := Suc (dispatched signed_in)\<rparr>))) = Some ''Bearer bb-token''
   \<and> gitHubTokenState
       (snd (refreshToken_at_mount saas_backend [''ghToken'' \<mapsto> ''gh-token'']
              (signed_in\<lparr>dispatched := Suc (dispatched signed_in)\<rparr>))) = Some ''gh-fresh''
   \<and> map authorization (dispatches (events_of
         (bitbucket always_401 ''saas'' (refreshToken_at_mount saas_backend [''ghToken'' \<mapsto> ''gh-token''])
            logout list_repositories signed_in))) =
       [Some ''Bearer bb-token'', Some ''Bearer bb-token'']
   \<and> gitHubTokenState (logout signed_in) = None
   \<and> fst (refreshToken_at_mount saas_backend [''ghToken'' \<mapsto> ''gh-token'']
            ((logout signed_in)\<lparr>dispatched := Suc (dispatched (logout signed_in))\<rparr>)) = Inr True
   \<and> dispatches (events_of
         (bitbucket always_401 ''saas'' (refreshToken_at_mount saas_backend [''ghToken'' \<mapsto> ''gh-token''])
            logout list_repositories (logout signed_in))) =
       [list_repositories, list_repositories\<lparr>retry := True\<rparr>]"
proof -
  let ?s0 = "signed_in\<lparr>dispatched := Suc (dispatched signed_in)\<rparr>"
  let ?l0 = "(logout signed_in)\<lparr>dispatched := Suc (dispatched (logout signed_in))\<rparr>"
  have cl: "refreshToken_at_mount saas_backend [''ghToken'' \<mapsto> ''gh-token''] =
              refreshToken saas_backend (Some ''gh-token'') []"
    by (simp add: refreshToken_at_mount_def)
  have n: "always_401 (dispatched signed_in) (mergeConfig signed_in list_repositories) = Answered unauthorized"
    and n': "always_401 (dispatched (logout signed_in)) (mergeConfig (logout signed_in) list_repositories) =
               Answered unauthorized"
    by (simp_all add: always_401_def)
  have st: "status unauthorized = Some 401" by (simp add: unauthorized_def)
  have nr: "\<not> retry list_repositories" by (simp add: list_repositories_def)
  have ok: "fst (refreshToken saas_backend (Some ''gh-token'') [] ?s0) = Inr True"
    and gh: "gitHubTokenState (snd (refreshToken saas_backend (Some ''gh-token'') [] ?s0)) = Some ''gh-fresh''"
    and ok': "fst (refreshToken saas_backend (Some ''gh-token'') [] ?l0) = Inr True"
    by (simp_all add: refreshToken_def saas_backend_def signed_in_fields truthy_def Let_def session_defs)
  from ok have rf: "refreshToken saas_backend (Some ''gh-token'') [] ?s0 =
      (Inr True, snd (refreshToken saas_backend (Some ''gh-token'') [] ?s0))"
    by (metis prod.collapse)
  from ok' have rf': "refreshToken saas_backend (Some ''gh-token'') [] ?l0 =
      (Inr True, snd (refreshToken saas_backend (Some ''gh-token'') [] ?l0))"
    by (metis prod.collapse)
  have m': "mergeConfig (logout signed_in) list_repositories = list_repositories"
    by (simp add: mergeConfig_def list_repositories_def logged_out_fields)
  from refresh_leaves_bitbucket_credential
      [where net=always_401 and s=signed_in and req=list_repositories and api=saas_backend
        and g="Some ''gh-token''" and u="[]", OF n st nr rf]
    refresh_leaves_bitbucket_credential
      [where net=always_401 and s="logout signed_in" and req=list_repositories and api=saas_backend
        and g="Some ''gh-token''" and u="[]", OF n' st nr rf']
    n st nr ok gh ok'
  show ?thesis by (simp add: cl merged_list_repositories signed_in_fields logged_out_fields m')
qed

subsection \<open>Two refreshes in flight\<close>

text \<open>
  Run alone, fed the backend's two answers, the steps compute what \<^verbatim>\<open>refreshToken\<close>
  computes.
\<close>

lemma refreshToken_steps:
  assumes "getConfig api s = Inr mode"
  shows "interleave g u
           [(False, Call), (False, Config (Inr mode)),
            (False, Token (refreshTokenCall api (s\<lparr>apiLog := apiLog s @ [GetConfig]\<rparr>) mode u))]
           (NotCalled, NotCalled, s) =
         (Settled (fst (refreshToken api g u s)), NotCalled, snd (refreshToken api g u s))"
  using assms by (auto simp add: refreshToken_def Let_def split: sum.splits)

text \<open>
  C9. With the mode \<^verbatim>\<open>saas\<close> and a GitHub token \<open>g\<close> in the closure, two invocations
  whose steps alternate both pass the guard and both call the exchange: two exchange
  calls are made, both invocations return \<^verbatim>\<open>true\<close>, and the credential left behind is
  the token of whichever exchange answer arrived last. No step of one invocation looks
  at the other.
\<close>

theorem concurrent_refreshes_both_exchange:
  assumes "truthy g" and "tA \<noteq> []" and "tB \<noteq> []"
  shows "(\<exists>s'. interleave g u
            [(False, Call), (True, Call),
             (False, Config (Inr ''saas'')), (True, Config (Inr ''saas'')),
             (False, Token (Inr (Some tA))), (True, Token (Inr (Some tB)))]
            (NotCalled, NotCalled, s) = (Settled (Inr True), Settled (Inr True), s')
          \<and> exchanges (apiLog s') = exchanges (apiLog s) + 2
          \<and> gitHubTokenState s' = Some tB \<and> githubAuthorization s' = Some (''Bearer '' @ tB))
       \<and> (\<exists>s'. interleave g u
            [(False, Call), (True, Call),
             (False, Config (Inr ''saas'')), (True, Config (Inr ''saas'')),
             (True, Token (Inr (Some tB))), (False, Token (Inr (Some tA)))]
            (NotCalled, NotCalled, s) = (Settled (Inr True), Settled (Inr True), s')
          \<and> exchanges (apiLog s') = exchanges (apiLog s) + 2
          \<and> gitHubTokenState s' = Some tA \<and> githubAuthorization s' = Some (''Bearer '' @ tA))"
  using assms by (simp add: session_defs Let_def exchanges_append)

theorem concurrent_refreshes_both_exchange_witness:
  "truthy (Some ''gh-token'')
   \<and> exchanges (apiLog signed_in) = 0
   \<and> (\<exists>s'. interleave (Some ''gh-token'') []
         [(False, Call), (True, Call),
          (False, Config (Inr ''saas'')), (True, Config (Inr ''saas'')),
          (True, Token (Inr (Some ''second''))), (False, Token (Inr (Some ''first'')))]
         (NotCalled, NotCalled, signed_in) = (Settled (Inr True), Settled (Inr True), s')
       \<and> exchanges (apiLog s') = 2
       \<and> gitHubTokenState s' = Some ''first'')"
proof -
  have g: "truthy (Some ''gh-token'')" by (simp add: truthy_def)
  have a: "''first'' \<noteq> []" and b: "''second'' \<noteq> []" by simp_all
  from concurrent_refreshes_both_exchange [OF g a b, of "[]" signed_in] g
  show ?thesis by (auto simp add: signed_in_fields simp del: interleave.simps)
qed

end
